theory Spec2Isabelle
  imports Main "HOL-Library.Word"
begin

unbundle bit_operations_syntax

section \<open>SHA-256, the digest behind \<^verbatim>\<open>hashlib.sha256\<close>\<close>

text \<open>
  The service hashes with \<^verbatim>\<open>hashlib.sha256\<close>. The digest is defined here as FIPS 180-4
  describes it: the message is padded to a multiple of 64 bytes, cut into blocks of sixteen
  32-bit words, and each block is fed to the compression function, 64 rounds over the
  message schedule. All arithmetic is on 32-bit words, so addition wraps. The round
  constants are written as eight rows of eight.
\<close>

type_synonym byte = "8 word"
type_synonym w32 = "32 word"
type_synonym sha_state = "w32 \<times> w32 \<times> w32 \<times> w32 \<times> w32 \<times> w32 \<times> w32 \<times> w32"

definition K256 :: "w32 list" where
  "K256 = concat [
    [0x428a2f98, 0x71374491, 0xb5c0fbcf, 0xe9b5dba5, 0x3956c25b, 0x59f111f1, 0x923f82a4, 0xab1c5ed5],
    [0xd807aa98, 0x12835b01, 0x243185be, 0x550c7dc3, 0x72be5d74, 0x80deb1fe, 0x9bdc06a7, 0xc19bf174],
    [0xe49b69c1, 0xefbe4786, 0x0fc19dc6, 0x240ca1cc, 0x2de92c6f, 0x4a7484aa, 0x5cb0a9dc, 0x76f988da],
    [0x983e5152, 0xa831c66d, 0xb00327c8, 0xbf597fc7, 0xc6e00bf3, 0xd5a79147, 0x06ca6351, 0x14292967],
    [0x27b70a85, 0x2e1b2138, 0x4d2c6dfc, 0x53380d13, 0x650a7354, 0x766a0abb, 0x81c2c92e, 0x92722c85],
    [0xa2bfe8a1, 0xa81a664b, 0xc24b8b70, 0xc76c51a3, 0xd192e819, 0xd6990624, 0xf40e3585, 0x106aa070],
    [0x19a4c116, 0x1e376c08, 0x2748774c, 0x34b0bcb5, 0x391c0cb3, 0x4ed8aa4a, 0x5b9cca4f, 0x682e6ff3],
    [0x748f82ee, 0x78a5636f, 0x84c87814, 0x8cc70208, 0x90befffa, 0xa4506ceb, 0xbef9a3f7, 0xc67178f2]]"

definition H256_init :: sha_state where
  "H256_init = (0x6a09e667, 0xbb67ae85, 0x3c6ef372, 0xa54ff53a,
                0x510e527f, 0x9b05688c, 0x1f83d9ab, 0x5be0cd19)"

definition rotr :: "nat \<Rightarrow> w32 \<Rightarrow> w32" where
  "rotr n w = (drop_bit n w) OR (push_bit (32 - n) w)"

definition Ch :: "w32 \<Rightarrow> w32 \<Rightarrow> w32 \<Rightarrow> w32" where
  "Ch x y z = (x AND y) XOR (NOT x AND z)"

definition Maj :: "w32 \<Rightarrow> w32 \<Rightarrow> w32 \<Rightarrow> w32" where
  "Maj x y z = (x AND y) XOR (x AND z) XOR (y AND z)"

definition Sigma0 :: "w32 \<Rightarrow> w32" where
  "Sigma0 x = rotr 2 x XOR rotr 13 x XOR rotr 22 x"

definition Sigma1 :: "w32 \<Rightarrow> w32" where
  "Sigma1 x = rotr 6 x XOR rotr 11 x XOR rotr 25 x"

definition sigma0 :: "w32 \<Rightarrow> w32" where
  "sigma0 x = rotr 7 x XOR rotr 18 x XOR drop_bit 3 x"

definition sigma1 :: "w32 \<Rightarrow> w32" where
  "sigma1 x = rotr 17 x XOR rotr 19 x XOR drop_bit 10 x"

text \<open>
  Padding: one byte \<open>0x80\<close>, zero bytes up to 56 modulo 64, then the length of the message
  in bits as eight big-endian bytes (a 64-bit word, so the bit length wraps at \<open>2 ^ 64\<close>).
\<close>

definition length_bytes :: "64 word \<Rightarrow> byte list" where
  "length_bytes n = map (\<lambda>i. ucast (drop_bit (8 * (7 - i)) n)) [0..<8]"

definition sha_pad :: "byte list \<Rightarrow> byte list" where
  "sha_pad m = m @ [0x80] @ replicate ((119 - length m mod 64) mod 64) 0
                 @ length_bytes (8 * of_nat (length m))"

fun word_of_bytes :: "byte list \<Rightarrow> w32" where
  "word_of_bytes [] = 0"
| "word_of_bytes (b # bs) = push_bit (8 * length bs) (ucast b) OR word_of_bytes bs"

fun words_of :: "nat \<Rightarrow> byte list \<Rightarrow> w32 list" where
  "words_of 0 bs = []"
| "words_of (Suc n) bs = word_of_bytes (take 4 bs) # words_of n (drop 4 bs)"

text \<open>
  The message schedule. \<open>win\<close> is the window of the last sixteen words, oldest first, so
  the word two steps back is at position 14, seven steps back at 9, fifteen steps back at 1
  and sixteen steps back at 0.
\<close>

fun schedule :: "nat \<Rightarrow> w32 list \<Rightarrow> w32 list" where
  "schedule 0 win = []"
| "schedule (Suc n) win =
     (let w = sigma1 (win ! 14) + win ! 9 + sigma0 (win ! 1) + win ! 0
      in w # schedule n (tl win @ [w]))"

fun sha_round :: "sha_state \<Rightarrow> w32 \<times> w32 \<Rightarrow> sha_state" where
  "sha_round (a, b, c, d, e, f, g, h) (k, w) =
     (let t1 = h + Sigma1 e + Ch e f g + k + w;
          t2 = Sigma0 a + Maj a b c
      in (t1 + t2, a, b, c, d + t1, e, f, g))"

fun add_state :: "sha_state \<Rightarrow> sha_state \<Rightarrow> sha_state" where
  "add_state (a, b, c, d, e, f, g, h) (a', b', c', d', e', f', g', h') =
     (a + a', b + b', c + c', d + d', e + e', f + f', g + g', h + h')"

definition compress :: "sha_state \<Rightarrow> byte list \<Rightarrow> sha_state" where
  "compress hs blk =
     (let m = words_of 16 blk;
          ws = m @ schedule 48 m
      in add_state hs (foldl sha_round hs (zip K256 ws)))"

function sha_blocks :: "sha_state \<Rightarrow> byte list \<Rightarrow> sha_state" where
  "sha_blocks hs bs =
     (if length bs < 64 then hs else sha_blocks (compress hs (take 64 bs)) (drop 64 bs))"
  by pat_completeness auto
termination
  by (relation "measure (\<lambda>(hs, bs). length bs)") auto

declare sha_blocks.simps [simp del]

definition bytes_of_word :: "w32 \<Rightarrow> byte list" where
  "bytes_of_word w = [ucast (drop_bit 24 w), ucast (drop_bit 16 w), ucast (drop_bit 8 w), ucast w]"

fun bytes_of_state :: "sha_state \<Rightarrow> byte list" where
  "bytes_of_state (a, b, c, d, e, f, g, h) = concat (map bytes_of_word [a, b, c, d, e, f, g, h])"

definition sha256 :: "byte list \<Rightarrow> byte list" where
  "sha256 m = bytes_of_state (sha_blocks H256_init (sha_pad m))"

definition hex_digit :: "nat \<Rightarrow> char" where
  "hex_digit n = ''0123456789abcdef'' ! (n mod 16)"

definition hex_of_bytes :: "byte list \<Rightarrow> string" where
  "hex_of_bytes bs = concat (map (\<lambda>b. [hex_digit (unat b div 16), hex_digit (unat b mod 16)]) bs)"

text \<open>
  A \<^verbatim>\<open>hashlib\<close> hash object. Its documented contract is that repeated calls of
  \<^verbatim>\<open>update\<close> are equivalent to a single call with the concatenation of all the arguments,
  so the object is modelled by the bytes it has been fed; \<^verbatim>\<open>hexdigest\<close> is the lower-case
  hexadecimal digest of those bytes.
\<close>

type_synonym sha_obj = "byte list"

definition sha256_new :: sha_obj where
  "sha256_new = []"

definition sha_update :: "sha_obj \<Rightarrow> byte list \<Rightarrow> sha_obj" where
  "sha_update h chunk = h @ chunk"

definition hexdigest :: "sha_obj \<Rightarrow> string" where
  "hexdigest h = hex_of_bytes (sha256 h)"

text \<open>
  Python strings are modelled by their UTF-8 byte sequences (a \<^typ>\<open>string\<close> is a list of
  8-bit characters), so \<^verbatim>\<open>str.encode()\<close> only changes the type.
\<close>

definition encode :: "string \<Rightarrow> byte list" where
  "encode s = map of_char s"

section \<open>The digest engine: \<^verbatim>\<open>calculate_file_hash\<close>\<close>

definition chunk_size :: nat where
  "chunk_size = 64 * 1024"

text \<open>The \<^verbatim>\<open>while offset < len(file_bytes)\<close> loop, with the hash object threaded through.\<close>

function hash_chunks :: "byte list \<Rightarrow> nat \<Rightarrow> sha_obj \<Rightarrow> sha_obj" where
  "hash_chunks file_bytes offset h =
     (if offset < length file_bytes
      then hash_chunks file_bytes (offset + chunk_size)
             (sha_update h (take chunk_size (drop offset file_bytes)))
      else h)"
  by pat_completeness auto
termination
  by (relation "measure (\<lambda>(file_bytes, offset, h). length file_bytes - offset)")
     (auto simp: chunk_size_def)

declare hash_chunks.simps [simp del]

definition calculate_file_hash :: "byte list \<Rightarrow> string" where
  "calculate_file_hash file_bytes =
     (if file_bytes = []
      then ''e3b0c44298fc1c149afbf4c8996fb92427ae41e4649b934ca495991b7852b855''
      else hexdigest (hash_chunks file_bytes 0 sha256_new))"

section \<open>Python values, dictionaries and errors\<close>

text \<open>
  A block is a Python dictionary from field names to values. The values that occur in
  blocks are integers (the index), strings and \<^verbatim>\<open>None\<close> (an upload without a file name).
  Every exception the code can raise is a value of \<open>error\<close>; a function that can raise
  returns \<open>error + 'a\<close>, with \<open>Inl\<close> for the exception.
\<close>

datatype pyval = PyNone | PyInt int | PyStr string

datatype error =
    KeyError string
  | ValueError
  | AttributeError
  | TypeError
  | OverflowError
  | HTTPException nat

type_synonym block = "string \<rightharpoonup> pyval"

text \<open>Truth value of a Python value, as \<^verbatim>\<open>not v\<close> tests it.\<close>

definition truthy :: "pyval \<Rightarrow> bool" where
  "truthy v = (case v of PyNone \<Rightarrow> False | PyInt i \<Rightarrow> i \<noteq> 0 | PyStr s \<Rightarrow> s \<noteq> [])"

text \<open>\<^verbatim>\<open>d[k]\<close> raises \<^verbatim>\<open>KeyError\<close> on a missing key; \<^verbatim>\<open>d.get(k, default)\<close> does not.\<close>

definition dict_item :: "block \<Rightarrow> string \<Rightarrow> error + pyval" where
  "dict_item d k = (case d k of None \<Rightarrow> Inl (KeyError k) | Some v \<Rightarrow> Inr v)"

definition dict_get :: "block \<Rightarrow> string \<Rightarrow> pyval \<Rightarrow> pyval" where
  "dict_get d k dflt = (case d k of None \<Rightarrow> dflt | Some v \<Rightarrow> v)"

text \<open>\<^verbatim>\<open>str(v)\<close>, which is what an f-string field without a format specification inserts.\<close>

definition digit_char :: "nat \<Rightarrow> char" where
  "digit_char n = ''0123456789'' ! (n mod 10)"

fun str_of_nat :: "nat \<Rightarrow> string" where
  "str_of_nat n = (if n < 10 then [digit_char n] else str_of_nat (n div 10) @ [digit_char (n mod 10)])"

declare str_of_nat.simps [simp del]

definition str_of_int :: "int \<Rightarrow> string" where
  "str_of_int i = (if i < 0 then CHR ''-'' # str_of_nat (nat (- i)) else str_of_nat (nat i))"

definition py_str :: "pyval \<Rightarrow> string" where
  "py_str v = (case v of PyNone \<Rightarrow> ''None'' | PyInt i \<Rightarrow> str_of_int i | PyStr s \<Rightarrow> s)"

section \<open>The block hasher: \<^verbatim>\<open>calculate_block_header_hash\<close>\<close>

text \<open>
  The header is the f-string over \<^verbatim>\<open>block['index']\<close>, \<^verbatim>\<open>block['previous_hash']\<close>,
  \<^verbatim>\<open>block['timestamp']\<close> (each a \<^verbatim>\<open>KeyError\<close> when missing, in this order) and
  \<^verbatim>\<open>block.get('operation', '')\<close>, \<^verbatim>\<open>block.get('filename', '')\<close>,
  \<^verbatim>\<open>block.get('result', '')\<close>.
\<close>

definition header_string :: "pyval \<Rightarrow> pyval \<Rightarrow> pyval \<Rightarrow> pyval \<Rightarrow> pyval \<Rightarrow> pyval \<Rightarrow> string" where
  "header_string i p t oper fname res =
     py_str i @ py_str p @ py_str t @ py_str oper @ py_str fname @ py_str res"

definition calculate_block_header_hash :: "block \<Rightarrow> error + string" where
  "calculate_block_header_hash block =
     (case dict_item block ''index'' of Inl e \<Rightarrow> Inl e | Inr i \<Rightarrow>
     (case dict_item block ''previous_hash'' of Inl e \<Rightarrow> Inl e | Inr p \<Rightarrow>
     (case dict_item block ''timestamp'' of Inl e \<Rightarrow> Inl e | Inr t \<Rightarrow>
        (let header = header_string i p t
                        (dict_get block ''operation'' (PyStr []))
                        (dict_get block ''filename'' (PyStr []))
                        (dict_get block ''result'' (PyStr []))
         in Inr (hexdigest (sha_update sha256_new (encode header)))))))"

definition zeros64 :: string where
  "zeros64 = replicate 64 (CHR ''0'')"

definition create_genesis_block :: "error + block" where
  "create_genesis_block =
     (let genesis_block =
            [''index'' \<mapsto> PyInt 0,
             ''previous_hash'' \<mapsto> PyStr zeros64,
             ''timestamp'' \<mapsto> PyStr ''2023-01-01T00:00:00Z'',
             ''operation'' \<mapsto> PyStr ''GENESIS'',
             ''filename'' \<mapsto> PyStr [],
             ''result'' \<mapsto> PyStr []]
      in case calculate_block_header_hash genesis_block of
           Inl e \<Rightarrow> Inl e
         | Inr h \<Rightarrow> Inr (genesis_block(''block_hash'' \<mapsto> PyStr h)))"

text \<open>
  A block holding exactly the six header fields, the fields the header hash reads, and
  the further fields appended blocks carry.
\<close>

definition block_of_fields :: "pyval \<Rightarrow> pyval \<Rightarrow> pyval \<Rightarrow> pyval \<Rightarrow> pyval \<Rightarrow> pyval \<Rightarrow> block" where
  "block_of_fields i p t oper fname res =
     [''index'' \<mapsto> i, ''previous_hash'' \<mapsto> p, ''timestamp'' \<mapsto> t,
      ''operation'' \<mapsto> oper, ''filename'' \<mapsto> fname, ''result'' \<mapsto> res]"

definition header_fields :: "string set" where
  "header_fields = {''index'', ''previous_hash'', ''timestamp'', ''operation'', ''filename'', ''result''}"

definition extra_fields :: "string set" where
  "extra_fields = {''hash'', ''stored_hash'', ''current_hash''}"

section \<open>Timestamps\<close>

text \<open>
  A naive \<^verbatim>\<open>datetime\<close> is its seven fields; Python compares two of them field by field,
  most significant first. \<open>valid_datetime\<close> holds the ranges the \<^verbatim>\<open>datetime\<close>
  constructor enforces.
\<close>

record datetime =
  year :: int
  month :: int
  day :: int
  hour :: int
  minute :: int
  second :: int
  microsecond :: int

definition is_leap :: "int \<Rightarrow> bool" where
  "is_leap y = (y mod 4 = 0 \<and> (y mod 100 \<noteq> 0 \<or> y mod 400 = 0))"

definition days_in_month :: "int \<Rightarrow> int \<Rightarrow> int" where
  "days_in_month y m =
     (if m = 2 then (if is_leap y then 29 else 28)
      else if m = 4 \<or> m = 6 \<or> m = 9 \<or> m = 11 then 30 else 31)"

definition valid_datetime :: "datetime \<Rightarrow> bool" where
  "valid_datetime d =
     (1 \<le> year d \<and> year d \<le> 9999 \<and> 1 \<le> month d \<and> month d \<le> 12
      \<and> 1 \<le> day d \<and> day d \<le> days_in_month (year d) (month d)
      \<and> 0 \<le> hour d \<and> hour d < 24 \<and> 0 \<le> minute d \<and> minute d < 60
      \<and> 0 \<le> second d \<and> second d < 60 \<and> 0 \<le> microsecond d \<and> microsecond d < 1000000)"

definition dt_less :: "datetime \<Rightarrow> datetime \<Rightarrow> bool" where
  "dt_less a b =
     (year a < year b \<or> (year a = year b \<and>
     (month a < month b \<or> (month a = month b \<and>
     (day a < day b \<or> (day a = day b \<and>
     (hour a < hour b \<or> (hour a = hour b \<and>
     (minute a < minute b \<or> (minute a = minute b \<and>
     (second a < second b \<or> (second a = second b \<and>
      microsecond a < microsecond b))))))))))))"

text \<open>
  Microseconds since the start of year 1, used for \<^verbatim>\<open>current_time + timedelta(minutes=10)\<close>.
  The sum raises \<^verbatim>\<open>OverflowError\<close> when it leaves the range of \<^verbatim>\<open>datetime\<close>
  (after 9999-12-31T23:59:59.999999). On valid datetimes comparing these counts is the
  comparison of the datetimes.
\<close>

definition days_before_year :: "int \<Rightarrow> int" where
  "days_before_year y = 365 * (y - 1) + (y - 1) div 4 - (y - 1) div 100 + (y - 1) div 400"

definition days_before_month :: "int \<Rightarrow> int \<Rightarrow> int" where
  "days_before_month y m =
     [0, 31, 59, 90, 120, 151, 181, 212, 243, 273, 304, 334] ! nat (m - 1)
     + (if 2 < m \<and> is_leap y then 1 else 0)"

definition to_micros :: "datetime \<Rightarrow> int" where
  "to_micros d =
     ((((days_before_year (year d) + days_before_month (year d) (month d) + day d) * 24
         + hour d) * 60 + minute d) * 60 + second d) * 1000000 + microsecond d"

definition max_datetime :: datetime where
  "max_datetime = \<lparr>year = 9999, month = 12, day = 31, hour = 23, minute = 59, second = 59,
                    microsecond = 999999\<rparr>"

definition tolerance_micros :: int where
  "tolerance_micros = 10 * 60 * 1000000"

text \<open>\<^verbatim>\<open>timestamp_time > current_time + timedelta(minutes=10)\<close>\<close>

definition exceeds_tolerance :: "datetime \<Rightarrow> datetime \<Rightarrow> error + bool" where
  "exceeds_tolerance timestamp_time current_time =
     (if to_micros max_datetime < to_micros current_time + tolerance_micros
      then Inl OverflowError
      else Inr (to_micros current_time + tolerance_micros < to_micros timestamp_time))"

text \<open>
  \<^verbatim>\<open>datetime.isoformat()\<close> with the default separator: the fraction is printed only when
  the microsecond field is not zero. The digits are those of the field ranges of a
  \<^verbatim>\<open>datetime\<close> (four for the year, two for the others, six for the microseconds).
\<close>

definition pad2 :: "int \<Rightarrow> string" where
  "pad2 n = [digit_char (nat (n div 10)), digit_char (nat n)]"

definition pad4 :: "int \<Rightarrow> string" where
  "pad4 n = [digit_char (nat (n div 1000)), digit_char (nat (n div 100)),
             digit_char (nat (n div 10)), digit_char (nat n)]"

definition pad6 :: "int \<Rightarrow> string" where
  "pad6 n = [digit_char (nat (n div 100000)), digit_char (nat (n div 10000)),
             digit_char (nat (n div 1000)), digit_char (nat (n div 100)),
             digit_char (nat (n div 10)), digit_char (nat n)]"

definition isoformat :: "datetime \<Rightarrow> string" where
  "isoformat d =
     pad4 (year d) @ ''-'' @ pad2 (month d) @ ''-'' @ pad2 (day d) @ ''T''
     @ pad2 (hour d) @ '':'' @ pad2 (minute d) @ '':'' @ pad2 (second d)
     @ (if microsecond d = 0 then [] else ''.'' @ pad6 (microsecond d))"

text \<open>
  \<^verbatim>\<open>datetime.fromisoformat\<close>, for the grammar of CPython 3.7 to 3.10:
  \<^verbatim>\<open>YYYY-MM-DD[*HH[:MM[:SS[.fff[fff]]]][+HH:MM[:SS[.ffffff]]]]\<close>, digits being ASCII
  digits, and every other string a \<^verbatim>\<open>ValueError\<close>. The result is the naive datetime and
  the UTC offset in microseconds (\<open>None\<close> when the string has none).
\<close>

definition digit_val :: "char \<Rightarrow> int option" where
  "digit_val c = (let n = (of_char c :: int) in if 48 \<le> n \<and> n \<le> 57 then Some (n - 48) else None)"

fun parse_digits_acc :: "int \<Rightarrow> string \<Rightarrow> int option" where
  "parse_digits_acc acc [] = Some acc"
| "parse_digits_acc acc (c # cs) =
     (case digit_val c of None \<Rightarrow> None | Some v \<Rightarrow> parse_digits_acc (10 * acc + v) cs)"

definition parse_digits :: "string \<Rightarrow> int option" where
  "parse_digits s = (if s = [] then None else parse_digits_acc 0 s)"

definition parse_isoformat_date :: "string \<Rightarrow> error + (int \<times> int \<times> int)" where
  "parse_isoformat_date dtstr =
     (if length dtstr \<noteq> 10 then Inl ValueError
      else (case parse_digits (take 4 dtstr) of None \<Rightarrow> Inl ValueError | Some y \<Rightarrow>
        (if dtstr ! 4 \<noteq> CHR ''-'' then Inl ValueError
         else (case parse_digits (take 2 (drop 5 dtstr)) of None \<Rightarrow> Inl ValueError | Some m \<Rightarrow>
           (if dtstr ! 7 \<noteq> CHR ''-'' then Inl ValueError
            else (case parse_digits (take 2 (drop 8 dtstr)) of None \<Rightarrow> Inl ValueError
                  | Some d \<Rightarrow> Inr (y, m, d)))))))"

definition parse_fraction :: "string \<Rightarrow> error + int" where
  "parse_fraction rest =
     (if rest = [] then Inr 0
      else if hd rest \<noteq> CHR ''.'' then Inl ValueError
      else let r = tl rest in
        if length r = 3 then (case parse_digits r of None \<Rightarrow> Inl ValueError | Some n \<Rightarrow> Inr (n * 1000))
        else if length r = 6 then (case parse_digits r of None \<Rightarrow> Inl ValueError | Some n \<Rightarrow> Inr n)
        else Inl ValueError)"

definition parse_hh_mm_ss_ff :: "string \<Rightarrow> error + (int \<times> int \<times> int \<times> int)" where
  "parse_hh_mm_ss_ff tstr =
     (if length tstr < 2 then Inl ValueError
      else (case parse_digits (take 2 tstr) of None \<Rightarrow> Inl ValueError | Some hh \<Rightarrow>
        (let r1 = drop 2 tstr in
         if r1 = [] then Inr (hh, 0, 0, 0)
         else if hd r1 \<noteq> CHR '':'' then Inl ValueError
         else (let t2 = tl r1 in
           if length t2 < 2 then Inl ValueError
           else (case parse_digits (take 2 t2) of None \<Rightarrow> Inl ValueError | Some mm \<Rightarrow>
             (let r2 = drop 2 t2 in
              if r2 = [] then Inr (hh, mm, 0, 0)
              else if hd r2 \<noteq> CHR '':'' then Inl ValueError
              else (let t3 = tl r2 in
                if length t3 < 2 then Inl ValueError
                else (case parse_digits (take 2 t3) of None \<Rightarrow> Inl ValueError | Some ss \<Rightarrow>
                  (case parse_fraction (drop 2 t3) of Inl e \<Rightarrow> Inl e
                   | Inr ff \<Rightarrow> Inr (hh, mm, ss, ff))))))))))"

fun find_char :: "char \<Rightarrow> string \<Rightarrow> nat option" where
  "find_char c [] = None"
| "find_char c (x # xs) =
     (if x = c then Some 0 else case find_char c xs of None \<Rightarrow> None | Some i \<Rightarrow> Some (Suc i))"

definition day_micros :: int where
  "day_micros = 24 * 60 * 60 * 1000000"

definition parse_isoformat_time :: "string \<Rightarrow> error + ((int \<times> int \<times> int \<times> int) \<times> int option)" where
  "parse_isoformat_time tstr =
     (if length tstr < 2 then Inl ValueError
      else (case (case find_char (CHR ''-'') tstr of Some i \<Rightarrow> Some i
                  | None \<Rightarrow> find_char (CHR ''+'') tstr) of
        None \<Rightarrow> (case parse_hh_mm_ss_ff tstr of Inl e \<Rightarrow> Inl e | Inr tc \<Rightarrow> Inr (tc, None))
      | Some i \<Rightarrow>
        (case parse_hh_mm_ss_ff (take i tstr) of Inl e \<Rightarrow> Inl e | Inr tc \<Rightarrow>
           (let tzstr = drop (Suc i) tstr in
            if length tzstr \<noteq> 5 \<and> length tzstr \<noteq> 8 \<and> length tzstr \<noteq> 15 then Inl ValueError
            else (case parse_hh_mm_ss_ff tzstr of Inl e \<Rightarrow> Inl e | Inr (h, m, s, f) \<Rightarrow>
              (if h = 0 \<and> m = 0 \<and> s = 0 \<and> f = 0 then Inr (tc, Some 0)
               else (let td = ((h * 60 + m) * 60 + s) * 1000000 + f in
                 if day_micros \<le> td then Inl ValueError
                 else Inr (tc, Some (if tstr ! i = CHR ''-'' then - td else td)))))))))"

definition fromisoformat :: "string \<Rightarrow> error + (datetime \<times> int option)" where
  "fromisoformat date_string =
     (case parse_isoformat_date (take 10 date_string) of Inl e \<Rightarrow> Inl e | Inr (y, m, d) \<Rightarrow>
        (let tstr = drop 11 date_string in
         (case (if tstr = [] then Inr ((0, 0, 0, 0), None) else parse_isoformat_time tstr) of
            Inl e \<Rightarrow> Inl e
          | Inr ((hh, mm, ss, ff), tz) \<Rightarrow>
              (let dt = \<lparr>year = y, month = m, day = d, hour = hh, minute = mm, second = ss,
                         microsecond = ff\<rparr>
               in if valid_datetime dt then Inr (dt, tz) else Inl ValueError))))"

text \<open>\<^verbatim>\<open>s.replace("Z", "+00:00")\<close>\<close>

definition replace_Z :: "string \<Rightarrow> string" where
  "replace_Z s = concat (map (\<lambda>c. if c = CHR ''Z'' then ''+00:00'' else [c]) s)"

text \<open>
  \<^verbatim>\<open>datetime.fromisoformat(v.replace("Z", "+00:00")).replace(tzinfo=None)\<close> on a field
  value: a value that is not a string has no \<^verbatim>\<open>replace\<close>; the offset is dropped, not
  applied.
\<close>

definition naive_time :: "pyval \<Rightarrow> error + datetime" where
  "naive_time v =
     (case v of
        PyStr s \<Rightarrow> (case fromisoformat (replace_Z s) of Inl e \<Rightarrow> Inl e | Inr (dt, tz) \<Rightarrow> Inr dt)
      | _ \<Rightarrow> Inl AttributeError)"

section \<open>The chain validator: \<^verbatim>\<open>validate_blockchain\<close>\<close>

text \<open>
  The hash the next block must point to: \<^verbatim>\<open>block_hash\<close> when it is there and truthy,
  otherwise the fields of older block shapes.
\<close>

definition previous_block_hash :: "block \<Rightarrow> pyval" where
  "previous_block_hash previous_block =
     (let h = dict_get previous_block ''block_hash'' PyNone
      in if \<not> truthy h
         then dict_get previous_block ''hash'' (dict_get previous_block ''current_hash'' PyNone)
         else h)"

text \<open>
  The body of the loop for one index: \<open>Inr False\<close> where the code returns
  \<^verbatim>\<open>False, i\<close>, \<open>Inr True\<close> where it goes on to the next index, \<open>Inl\<close> where it raises.
  The checks are in the order of the source: link, stored header hash, timestamps (the
  current block's timestamp is parsed before the previous block's).
\<close>

definition check_block :: "block \<Rightarrow> block \<Rightarrow> error + bool" where
  "check_block previous_block current_block =
     (case dict_item current_block ''previous_hash'' of Inl e \<Rightarrow> Inl e | Inr ph \<Rightarrow>
        (if ph \<noteq> previous_block_hash previous_block then Inr False
         else (case (if current_block ''block_hash'' \<noteq> None
                     then (case calculate_block_header_hash current_block of Inl e \<Rightarrow> Inl e
                           | Inr calculated_hash \<Rightarrow>
                             (case dict_item current_block ''block_hash'' of Inl e \<Rightarrow> Inl e
                              | Inr bh \<Rightarrow> Inr (bh = PyStr calculated_hash)))
                     else Inr True) of
            Inl e \<Rightarrow> Inl e
          | Inr False \<Rightarrow> Inr False
          | Inr True \<Rightarrow>
            (case dict_item current_block ''timestamp'' of Inl e \<Rightarrow> Inl e | Inr ct \<Rightarrow>
            (case naive_time ct of Inl e \<Rightarrow> Inl e | Inr current_time \<Rightarrow>
            (case dict_item previous_block ''timestamp'' of Inl e \<Rightarrow> Inl e | Inr pt \<Rightarrow>
            (case naive_time pt of Inl e \<Rightarrow> Inl e | Inr previous_time \<Rightarrow>
               Inr (\<not> dt_less current_time previous_time))))))))"

text \<open>\<^verbatim>\<open>for i in range(1, len(BLOCKCHAIN_LOG))\<close>, from index \<open>i\<close> on.\<close>

function validate_from :: "block list \<Rightarrow> nat \<Rightarrow> error + (bool \<times> nat option)" where
  "validate_from log i =
     (if i < length log
      then (case check_block (log ! (i - 1)) (log ! i) of
              Inl e \<Rightarrow> Inl e
            | Inr False \<Rightarrow> Inr (False, Some i)
            | Inr True \<Rightarrow> validate_from log (Suc i))
      else Inr (True, None))"
  by pat_completeness auto
termination
  by (relation "measure (\<lambda>(log, i). length log - i)") auto

declare validate_from.simps [simp del]

definition validate_blockchain :: "block list \<Rightarrow> error + (bool \<times> nat option)" where
  "validate_blockchain log =
     (if log = [] then Inr (True, None)
      else (case dict_item (log ! 0) ''index'' of Inl e \<Rightarrow> Inl e | Inr i \<Rightarrow>
        (if i \<noteq> PyInt 0 then Inr (False, Some 0)
         else (case dict_item (log ! 0) ''previous_hash'' of Inl e \<Rightarrow> Inl e | Inr p \<Rightarrow>
           (if p \<noteq> PyStr zeros64 then Inr (False, Some 0)
            else validate_from log 1)))))"

section \<open>Requests that append: \<^verbatim>\<open>hash_file\<close> and \<^verbatim>\<open>verify_file_integrity\<close>\<close>

text \<open>
  The handlers read and mutate the global \<^verbatim>\<open>BLOCKCHAIN_LOG\<close> and can raise at several
  points. A handler is a function from the log to a result and the log it leaves behind:
  a raise leaves the log as it is at that moment.
\<close>

type_synonym 'a prog = "block list \<Rightarrow> (error + 'a) \<times> block list"

definition return_p :: "'a \<Rightarrow> 'a prog" where
  "return_p a = (\<lambda>log. (Inr a, log))"

definition raise_p :: "error \<Rightarrow> 'a prog" where
  "raise_p e = (\<lambda>log. (Inl e, log))"

definition lift_p :: "error + 'a \<Rightarrow> 'a prog" where
  "lift_p r = (\<lambda>log. (r, log))"

definition bind_p :: "'a prog \<Rightarrow> ('a \<Rightarrow> 'b prog) \<Rightarrow> 'b prog" where
  "bind_p m f = (\<lambda>log. case m log of (Inl e, log') \<Rightarrow> (Inl e, log') | (Inr a, log') \<Rightarrow> f a log')"

definition except_p :: "'a prog \<Rightarrow> (error \<Rightarrow> 'a prog) \<Rightarrow> 'a prog" where
  "except_p m handler =
     (\<lambda>log. case m log of (Inl e, log') \<Rightarrow> handler e log' | (Inr a, log') \<Rightarrow> (Inr a, log'))"

definition read_log :: "block list prog" where
  "read_log = (\<lambda>log. (Inr log, log))"

definition append_log :: "block \<Rightarrow> unit prog" where
  "append_log b = (\<lambda>log. (Inr (), log @ [b]))"

text \<open>
  The handlers' \<^verbatim>\<open>except\<close> clauses: an \<^verbatim>\<open>HTTPException\<close> is raised again, any other
  exception becomes status 500.
\<close>

definition to_http :: "error \<Rightarrow> error" where
  "to_http e = (case e of HTTPException c \<Rightarrow> HTTPException c | _ \<Rightarrow> HTTPException 500)"

text \<open>
  Reading the upload in chunks of 64 KiB: \<open>offset\<close> is the position in the file,
  \<open>total_size\<close> the bytes read so far; status 413 as soon as the limit is exceeded.
\<close>

function read_upload :: "byte list \<Rightarrow> nat \<Rightarrow> int \<Rightarrow> int \<Rightarrow> byte list \<Rightarrow> error + byte list" where
  "read_upload file offset file_size_limit total_size file_content =
     (if take chunk_size (drop offset file) = [] then Inr file_content
      else if file_size_limit < total_size + int (length (take chunk_size (drop offset file)))
      then Inl (HTTPException 413)
      else read_upload file (offset + length (take chunk_size (drop offset file))) file_size_limit
             (total_size + int (length (take chunk_size (drop offset file))))
             (file_content @ take chunk_size (drop offset file)))"
  by pat_completeness auto
termination
  by (relation "measure (\<lambda>(file, offset, limit, total, content). length file - offset)")
     (auto simp: chunk_size_def)

declare read_upload.simps [simp del]

text \<open>
  The \<^verbatim>\<open>previous_hash\<close> of a new block: 64 zeros for an empty log, otherwise the
  \<^verbatim>\<open>block_hash\<close> of the last block, with the fields of older block shapes as defaults.
\<close>

definition tail_hash :: "block list \<Rightarrow> pyval" where
  "tail_hash log =
     (if log \<noteq> []
      then (let previous_block = last log
            in dict_get previous_block ''block_hash''
                 (dict_get previous_block ''hash''
                    (dict_get previous_block ''current_hash'' (PyStr zeros64))))
      else PyStr zeros64)"

text \<open>
  \<open>now1\<close> and \<open>now2\<close> are the two readings of \<^verbatim>\<open>datetime.utcnow()\<close>: the first becomes the
  timestamp, the second is the wall clock the timestamp is checked against.
  \<open>max_file_size_mb\<close> is \<^verbatim>\<open>int(os.environ.get("MAX_FILE_SIZE", "10"))\<close>, \<open>filename\<close> is
  \<^verbatim>\<open>file.filename\<close> (a string or \<^verbatim>\<open>None\<close>).
\<close>

definition hash_file ::
  "byte list \<Rightarrow> pyval \<Rightarrow> int \<Rightarrow> datetime \<Rightarrow> datetime \<Rightarrow> block prog" where
  "hash_file file filename max_file_size_mb now1 now2 =
     except_p
       (bind_p (lift_p (read_upload file 0 (max_file_size_mb * 1024 * 1024) 0 [])) (\<lambda>file_content.
        bind_p read_log (\<lambda>log.
        let calculated_hash = calculate_file_hash file_content;
            previous_hash = tail_hash log;
            timestamp = isoformat now1 @ ''Z''
        in
        bind_p (lift_p (naive_time (PyStr timestamp))) (\<lambda>timestamp_time.
        bind_p (lift_p (exceeds_tolerance timestamp_time now2)) (\<lambda>too_far.
        if too_far then raise_p (HTTPException 400)
        else
        bind_p read_log (\<lambda>log.
        let block_index = int (length log);
            new_block =
              [''index'' \<mapsto> PyInt block_index,
               ''previous_hash'' \<mapsto> previous_hash,
               ''timestamp'' \<mapsto> PyStr timestamp,
               ''operation'' \<mapsto> PyStr ''HASH'',
               ''filename'' \<mapsto> filename,
               ''result'' \<mapsto> PyStr calculated_hash,
               ''hash'' \<mapsto> PyStr calculated_hash]
        in
        bind_p (lift_p (calculate_block_header_hash new_block)) (\<lambda>h.
        bind_p (append_log (new_block(''block_hash'' \<mapsto> PyStr h))) (\<lambda>_.
        return_p
          [''status'' \<mapsto> PyStr ''success'',
           ''filename'' \<mapsto> filename,
           ''hash'' \<mapsto> PyStr calculated_hash,
           ''block_hash'' \<mapsto> PyStr h,
           ''block_index'' \<mapsto> PyInt block_index,
           ''timestamp'' \<mapsto> PyStr timestamp]))))))))
       (\<lambda>e. raise_p (to_http e))"

text \<open>
  \<^verbatim>\<open>str.lower()\<close> on the ASCII letters. The lowered strings are only compared with a
  hexadecimal digest, and no character outside ASCII lowers to a hexadecimal digit.
\<close>

definition lower_char :: "char \<Rightarrow> char" where
  "lower_char c =
     (let n = (of_char c :: nat) in if 65 \<le> n \<and> n \<le> 90 then char_of (n + 32) else c)"

definition lower :: "string \<Rightarrow> string" where
  "lower s = map lower_char s"

definition verify_file_integrity ::
  "byte list \<Rightarrow> pyval \<Rightarrow> string \<Rightarrow> int \<Rightarrow> datetime \<Rightarrow> datetime \<Rightarrow> block prog" where
  "verify_file_integrity file filename stored_hash max_file_size_mb now1 now2 =
     except_p
       (if stored_hash = [] then raise_p (HTTPException 400)
        else
        bind_p (lift_p (read_upload file 0 (max_file_size_mb * 1024 * 1024) 0 [])) (\<lambda>file_content.
        bind_p read_log (\<lambda>log.
        let current_hash = calculate_file_hash file_content;
            is_valid = (lower current_hash = lower stored_hash);
            status = (if is_valid then ''valid'' else ''invalid'');
            message = (if is_valid then ''File integrity verified'' else ''File tampering detected'');
            previous_hash = tail_hash log;
            timestamp = isoformat now1 @ ''Z''
        in
        bind_p (lift_p (naive_time (PyStr timestamp))) (\<lambda>timestamp_time.
        bind_p (lift_p (exceeds_tolerance timestamp_time now2)) (\<lambda>too_far.
        if too_far then raise_p (HTTPException 400)
        else
        bind_p read_log (\<lambda>log.
        let block_index = int (length log);
            new_block =
              [''index'' \<mapsto> PyInt block_index,
               ''previous_hash'' \<mapsto> previous_hash,
               ''timestamp'' \<mapsto> PyStr timestamp,
               ''operation'' \<mapsto> PyStr ''VERIFICATION'',
               ''filename'' \<mapsto> filename,
               ''stored_hash'' \<mapsto> PyStr stored_hash,
               ''current_hash'' \<mapsto> PyStr current_hash,
               ''result'' \<mapsto> PyStr status]
        in
        bind_p (lift_p (calculate_block_header_hash new_block)) (\<lambda>h.
        bind_p (append_log (new_block(''block_hash'' \<mapsto> PyStr h))) (\<lambda>_.
        return_p
          [''status'' \<mapsto> PyStr status,
           ''filename'' \<mapsto> filename,
           ''current_hash'' \<mapsto> PyStr current_hash,
           ''stored_hash'' \<mapsto> PyStr stored_hash,
           ''block_hash'' \<mapsto> PyStr h,
           ''block_index'' \<mapsto> PyInt block_index,
           ''timestamp'' \<mapsto> PyStr timestamp,
           ''message'' \<mapsto> PyStr message]))))))))
       (\<lambda>e. raise_p (to_http e))"

section \<open>Reading the chain: \<^verbatim>\<open>get_blockchain_log\<close>\<close>

text \<open>
  \<^verbatim>\<open>blockchain_copy.sort(key=lambda x: x["index"], reverse=True)\<close>. The key function
  raises \<^verbatim>\<open>KeyError\<close> on a block without index. Python compares integers with integers
  and strings with strings; with two or more keys that are not all integers or all strings
  the sort raises \<^verbatim>\<open>TypeError\<close>. The sort is stable, and with \<^verbatim>\<open>reverse=True\<close> it is
  the stable ascending sort of the reversed list, reversed.
\<close>

fun str_le :: "string \<Rightarrow> string \<Rightarrow> bool" where
  "str_le [] ys = True"
| "str_le (x # xs) [] = False"
| "str_le (x # xs) (y # ys) =
     ((of_char x :: nat) < of_char y \<or> (x = y \<and> str_le xs ys))"

definition key_le :: "pyval \<Rightarrow> pyval \<Rightarrow> bool" where
  "key_le a b =
     (case (a, b) of
        (PyInt x, PyInt y) \<Rightarrow> x \<le> y
      | (PyStr x, PyStr y) \<Rightarrow> str_le x y
      | _ \<Rightarrow> False)"

definition is_int :: "pyval \<Rightarrow> bool" where
  "is_int v = (case v of PyInt i \<Rightarrow> True | _ \<Rightarrow> False)"

definition is_str :: "pyval \<Rightarrow> bool" where
  "is_str v = (case v of PyStr s \<Rightarrow> True | _ \<Rightarrow> False)"

fun collect_keys :: "block list \<Rightarrow> error + pyval list" where
  "collect_keys [] = Inr []"
| "collect_keys (b # bs) =
     (case dict_item b ''index'' of Inl e \<Rightarrow> Inl e | Inr k \<Rightarrow>
        (case collect_keys bs of Inl e \<Rightarrow> Inl e | Inr ks \<Rightarrow> Inr (k # ks)))"

fun insort_block :: "block \<Rightarrow> block list \<Rightarrow> block list" where
  "insort_block x [] = [x]"
| "insort_block x (y # ys) =
     (if key_le (dict_get x ''index'' PyNone) (dict_get y ''index'' PyNone)
      then x # y # ys else y # insort_block x ys)"

definition sort_blocks :: "block list \<Rightarrow> block list" where
  "sort_blocks bs = foldr insort_block bs []"

definition sort_by_index_reverse :: "block list \<Rightarrow> error + block list" where
  "sort_by_index_reverse bs =
     (case collect_keys bs of Inl e \<Rightarrow> Inl e | Inr ks \<Rightarrow>
        if length ks \<le> 1 then Inr bs
        else if list_all is_int ks \<or> list_all is_str ks then Inr (rev (sort_blocks (rev bs)))
        else Inl TypeError)"

record log_response =
  status :: string
  block_count :: nat
  chain_validity_status :: string
  blocks :: "block list"

text \<open>The deep copy of the log is the log: values are not shared in this model.\<close>

definition get_blockchain_log :: "block list \<Rightarrow> error + log_response" where
  "get_blockchain_log log =
     (let blockchain_copy = log in
      case sort_by_index_reverse blockchain_copy of Inl e \<Rightarrow> Inl e | Inr sorted_copy \<Rightarrow>
        (case validate_blockchain log of Inl e \<Rightarrow> Inl e | Inr (is_valid, invalid_index) \<Rightarrow>
           Inr \<lparr>status = ''success'',
                block_count = length sorted_copy,
                chain_validity_status = (if is_valid then ''valid'' else ''invalid''),
                blocks = sorted_copy\<rparr>))"

section \<open>Reachable chains\<close>

text \<open>
  The log of a running service: the module starts it with the genesis block, and every
  successful \<^verbatim>\<open>hash_file\<close> or \<^verbatim>\<open>verify_file_integrity\<close> request appends to it.
  \<open>reachable clock_ok mb log t\<close>: the log is reachable with size limit \<open>mb\<close>, and \<open>t\<close> is
  the clock reading that became the timestamp of its last block. \<open>clock_ok t now\<close> is what
  is assumed of a clock reading \<open>now\<close> that follows \<open>t\<close>; readings are valid datetimes.
\<close>

definition genesis_time :: datetime where
  "genesis_time = \<lparr>year = 2023, month = 1, day = 1, hour = 0, minute = 0, second = 0,
                    microsecond = 0\<rparr>"

text \<open>
  \<^verbatim>\<open>BLOCKCHAIN_LOG = []\<close>, then \<^verbatim>\<open>BLOCKCHAIN_LOG.append(create_genesis_block())\<close>, at
  module load.
\<close>

definition initial_log :: "block list" where
  "initial_log = (case create_genesis_block of Inl e \<Rightarrow> [] | Inr g \<Rightarrow> [] @ [g])"

inductive reachable :: "(datetime \<Rightarrow> datetime \<Rightarrow> bool) \<Rightarrow> int \<Rightarrow> block list \<Rightarrow> datetime \<Rightarrow> bool"
  for clock_ok :: "datetime \<Rightarrow> datetime \<Rightarrow> bool" and mb :: int where
  reach_init: "reachable clock_ok mb initial_log genesis_time"
| reach_hash: "reachable clock_ok mb log t \<Longrightarrow> valid_datetime now1 \<Longrightarrow> valid_datetime now2
     \<Longrightarrow> clock_ok t now1
     \<Longrightarrow> hash_file file filename mb now1 now2 log = (Inr response, log')
     \<Longrightarrow> reachable clock_ok mb log' now1"
| reach_verify: "reachable clock_ok mb log t \<Longrightarrow> valid_datetime now1 \<Longrightarrow> valid_datetime now2
     \<Longrightarrow> clock_ok t now1
     \<Longrightarrow> verify_file_integrity file filename stored_hash mb now1 now2 log = (Inr response, log')
     \<Longrightarrow> reachable clock_ok mb log' now1"

definition any_clock :: "datetime \<Rightarrow> datetime \<Rightarrow> bool" where
  "any_clock t now = True"

definition monotone_clock :: "datetime \<Rightarrow> datetime \<Rightarrow> bool" where
  "monotone_clock t now = (\<not> dt_less now t)"

text \<open>The chain invariants, on the fields of the blocks.\<close>

definition indices_dense :: "block list \<Rightarrow> bool" where
  "indices_dense log = (\<forall>i < length log. (log ! i) ''index'' = Some (PyInt (int i)))"

definition links_intact :: "block list \<Rightarrow> bool" where
  "links_intact log =
     (\<forall>i < length log. 0 < i \<longrightarrow>
        (\<exists>h. (log ! (i - 1)) ''block_hash'' = Some h \<and> (log ! i) ''previous_hash'' = Some h))"

definition hashes_recomputable :: "block list \<Rightarrow> bool" where
  "hashes_recomputable log =
     (\<forall>i < length log. \<exists>h. calculate_block_header_hash (log ! i) = Inr h
                              \<and> (log ! i) ''block_hash'' = Some (PyStr h))"

definition timestamps_nondecreasing :: "block list \<Rightarrow> bool" where
  "timestamps_nondecreasing log =
     (\<forall>i < length log. 0 < i \<longrightarrow>
        (\<exists>ts ts' a b. (log ! (i - 1)) ''timestamp'' = Some ts \<and> (log ! i) ''timestamp'' = Some ts'
                      \<and> naive_time ts = Inr a \<and> naive_time ts' = Inr b \<and> \<not> dt_less b a))"

section \<open>The digest engine is single-pass SHA-256\<close>

lemma hash_chunks_eq: "hash_chunks file_bytes offset h = h @ drop offset file_bytes"
proof (induction file_bytes offset h rule: hash_chunks.induct)
  case (1 file_bytes offset h)
  show ?case
  proof (cases "offset < length file_bytes")
    case True
    have "take chunk_size (drop offset file_bytes) @ drop (offset + chunk_size) file_bytes
            = drop offset file_bytes"
      by (metis add.commute append_take_drop_id drop_drop)
    with True "1.IH" show ?thesis
      by (subst hash_chunks.simps) (simp add: sha_update_def)
  next
    case False
    then show ?thesis
      by (subst hash_chunks.simps) simp
  qed
qed

lemma sha256_empty_vector:
  "hex_of_bytes (sha256 []) = ''e3b0c44298fc1c149afbf4c8996fb92427ae41e4649b934ca495991b7852b855''"
  by code_simp

lemma sha256_hello_vector:
  "hex_of_bytes (sha256 (encode ''Hello World''))
     = ''a591a6d40bf420404a011733cfb7b190d62c65bf0bcda32b57b277d9ad9f146e''"
  by code_simp

lemma calculate_file_hash_eq: "calculate_file_hash bs = hex_of_bytes (sha256 bs)"
  by (simp add: calculate_file_hash_def hexdigest_def hash_chunks_eq sha256_new_def
      sha256_empty_vector)

text \<open>
  Claim C7. For every byte sequence, \<^verbatim>\<open>calculate_file_hash\<close>, with its special case for
  the empty input and its loop over chunks of 64 KiB, returns the hexadecimal digest of
  SHA-256 over the whole input in one pass; the empty input gives
  \<^verbatim>\<open>e3b0c442...7852b855\<close> and \<^verbatim>\<open>b"Hello World"\<close> gives the standard test vector
  \<^verbatim>\<open>a591a6d4...ad9f146e\<close>.
\<close>

theorem calculate_file_hash_single_pass:
  "calculate_file_hash file_bytes = hex_of_bytes (sha256 file_bytes)
   \<and> calculate_file_hash [] = ''e3b0c44298fc1c149afbf4c8996fb92427ae41e4649b934ca495991b7852b855''
   \<and> calculate_file_hash (encode ''Hello World'')
       = ''a591a6d40bf420404a011733cfb7b190d62c65bf0bcda32b57b277d9ad9f146e''"
  using sha256_hello_vector sha256_empty_vector by (simp add: calculate_file_hash_eq)

section \<open>The block hasher\<close>

lemma header_hash_of_fields:
  "calculate_block_header_hash (block_of_fields i p t oper fname res)
     = Inr (hex_of_bytes (sha256 (encode (header_string i p t oper fname res))))"
  by (simp add: calculate_block_header_hash_def block_of_fields_def dict_item_def dict_get_def
      hexdigest_def sha_update_def sha256_new_def)

lemma header_hash_cong:
  assumes "b1 ''index'' = b2 ''index''" "b1 ''previous_hash'' = b2 ''previous_hash''"
    "b1 ''timestamp'' = b2 ''timestamp''" "b1 ''operation'' = b2 ''operation''"
    "b1 ''filename'' = b2 ''filename''" "b1 ''result'' = b2 ''result''"
  shows "calculate_block_header_hash b1 = calculate_block_header_hash b2"
  unfolding calculate_block_header_hash_def dict_item_def dict_get_def
  by (simp only: assms)

lemma py_str_1: "py_str (PyInt 1) = ''1''"
  by (simp add: py_str_def str_of_int_def str_of_nat.simps digit_char_def)

lemma py_str_12: "py_str (PyInt 12) = ''12''"
  by (simp add: py_str_def str_of_int_def str_of_nat.simps digit_char_def)

text \<open>
  Claim C6. The block hasher is SHA-256 over the UTF-8 encoding of the six fields index,
  previous_hash, timestamp, operation, filename, result, concatenated in that order with no
  separators. So two field tuples with the same concatenation have the same block hash,
  and distinct tuples that split one string at different field boundaries collide: index 1
  with previous_hash \<^verbatim>\<open>2ab\<close> and index 12 with previous_hash \<^verbatim>\<open>ab\<close>.
\<close>

theorem block_hasher_concatenation:
  "calculate_block_header_hash (block_of_fields i p t oper fname res)
     = Inr (hex_of_bytes (sha256 (encode
         (py_str i @ py_str p @ py_str t @ py_str oper @ py_str fname @ py_str res))))
   \<and> (py_str i @ py_str p @ py_str t @ py_str oper @ py_str fname @ py_str res
        = py_str i' @ py_str p' @ py_str t' @ py_str oper' @ py_str fname' @ py_str res'
      \<longrightarrow> calculate_block_header_hash (block_of_fields i p t oper fname res)
          = calculate_block_header_hash (block_of_fields i' p' t' oper' fname' res'))
   \<and> (PyInt 1, PyStr ''2ab'') \<noteq> (PyInt 12, PyStr ''ab'')
   \<and> calculate_block_header_hash (block_of_fields (PyInt 1) (PyStr ''2ab'') t oper fname res)
       = calculate_block_header_hash (block_of_fields (PyInt 12) (PyStr ''ab'') t oper fname res)"
  by (simp add: header_hash_of_fields header_string_def py_str_1 py_str_12) (simp add: py_str_def)

theorem block_hasher_concatenation_witness:
  "py_str (PyInt 1) @ py_str (PyStr ''2ab'') @ py_str (PyStr ''2023-01-01T00:00:00Z'')
     @ py_str (PyStr ''HASH'') @ py_str (PyStr ''a.txt'') @ py_str (PyStr ''00ff'')
   = py_str (PyInt 12) @ py_str (PyStr ''ab'') @ py_str (PyStr ''2023-01-01T00:00:00Z'')
     @ py_str (PyStr ''HASH'') @ py_str (PyStr ''a.txt'') @ py_str (PyStr ''00ff'')
   \<and> calculate_block_header_hash
         (block_of_fields (PyInt 1) (PyStr ''2ab'') (PyStr ''2023-01-01T00:00:00Z'')
            (PyStr ''HASH'') (PyStr ''a.txt'') (PyStr ''00ff''))
     = calculate_block_header_hash
         (block_of_fields (PyInt 12) (PyStr ''ab'') (PyStr ''2023-01-01T00:00:00Z'')
            (PyStr ''HASH'') (PyStr ''a.txt'') (PyStr ''00ff''))"
proof -
  have same: "py_str (PyInt 1) @ py_str (PyStr ''2ab'') @ py_str (PyStr ''2023-01-01T00:00:00Z'')
     @ py_str (PyStr ''HASH'') @ py_str (PyStr ''a.txt'') @ py_str (PyStr ''00ff'')
   = py_str (PyInt 12) @ py_str (PyStr ''ab'') @ py_str (PyStr ''2023-01-01T00:00:00Z'')
     @ py_str (PyStr ''HASH'') @ py_str (PyStr ''a.txt'') @ py_str (PyStr ''00ff'')"
    by (simp add: py_str_1 py_str_12) (simp add: py_str_def)
  from block_hasher_concatenation
         [of "PyInt 1" "PyStr ''2ab''" "PyStr ''2023-01-01T00:00:00Z''" "PyStr ''HASH''"
             "PyStr ''a.txt''" "PyStr ''00ff''"
             "PyInt 12" "PyStr ''ab''" "PyStr ''2023-01-01T00:00:00Z''" "PyStr ''HASH''"
             "PyStr ''a.txt''" "PyStr ''00ff''"]
  have "calculate_block_header_hash
         (block_of_fields (PyInt 1) (PyStr ''2ab'') (PyStr ''2023-01-01T00:00:00Z'')
            (PyStr ''HASH'') (PyStr ''a.txt'') (PyStr ''00ff''))
     = calculate_block_header_hash
         (block_of_fields (PyInt 12) (PyStr ''ab'') (PyStr ''2023-01-01T00:00:00Z'')
            (PyStr ''HASH'') (PyStr ''a.txt'') (PyStr ''00ff''))"
    using same by blast
  with same show ?thesis by blast
qed

end
